theory Spec2Isabelle
  imports Complex_Main "HOL-Library.Word" "HOL-Library.Sublist"
begin

section \<open>The upload-and-analyze pipeline of \<open>app/routes/upload.tsx\<close>\<close>

text \<open>
  The component \<open>Upload\<close> owns three pieces of React state (\<open>isProcessing\<close>,
  \<open>statusText\<close>, \<open>file\<close>) and two handlers: \<open>handleSubmit\<close>, the validation
  gate, and \<open>handleAnalyze\<close>, the pipeline. Both are embedded below as functions on an
  explicit state. Everything the handlers call but do not define (the Puter stores
  \<open>fs\<close>, \<open>kv\<close>, \<open>ai\<close>, \<open>convertPdfToImage\<close>, \<open>generateUUID\<close>,
  \<open>prepareInstructions\<close>, \<open>JSON.parse\<close>) is a field of an environment record: a
  function on an abstract world \<open>'w\<close> that returns its outcome and the new world. Every
  call is appended, with its outcome, to a trace kept in the state, so that which calls
  happened, in which order and with which result can be read off the final state.
\<close>

subsection \<open>JavaScript strings\<close>

text \<open>
  A JavaScript string is a sequence of UTF-16 code units. User data (form fields, paths,
  identifiers, critique text) are such sequences; the literals of the program that only
  reach the screen (status and alert messages) are kept as HOL strings.
\<close>

type_synonym jsstring = "16 word list"

definition js :: "string \<Rightarrow> jsstring" where
  "js s = map (\<lambda>c. of_nat (of_char c)) s"

text \<open>
  \<open>String.prototype.trim\<close> removes, from both ends, the code units of ECMAScript's
  WhiteSpace and LineTerminator productions: TAB, LF, VT, FF, CR, SP, NBSP, U+1680,
  U+2000 to U+200A, LS, PS, U+202F, U+205F, U+3000 and the byte order mark.
\<close>

definition isWhiteSpace :: "16 word \<Rightarrow> bool" where
  "isWhiteSpace c \<longleftrightarrow>
     c = 0x9 \<or> c = 0xA \<or> c = 0xB \<or> c = 0xC \<or> c = 0xD \<or> c = 0x20 \<or> c = 0xA0 \<or>
     c = 0x1680 \<or> (0x2000 \<le> c \<and> c \<le> 0x200A) \<or> c = 0x2028 \<or> c = 0x2029 \<or>
     c = 0x202F \<or> c = 0x205F \<or> c = 0x3000 \<or> c = 0xFEFF"

definition trim :: "jsstring \<Rightarrow> jsstring" where
  "trim s = rev (dropWhile isWhiteSpace (rev (dropWhile isWhiteSpace s)))"

text \<open>
  The test \<open>!x?.trim()\<close> of \<open>handleSubmit\<close>: true when \<open>x\<close> is \<open>null\<close>
  (\<open>FormData.get\<close> found no such field, the optional chain gives \<open>undefined\<close>) or
  when the trimmed string is the empty string, the only falsy string.
\<close>

definition not_trim :: "jsstring option \<Rightarrow> bool" where
  "not_trim x = (case x of None \<Rightarrow> True | Some s \<Rightarrow> trim s = [])"

subsection \<open>Data\<close>

text \<open>The DOM \<open>File\<close>: its name, its declared media type and its bytes.\<close>

record jsfile =
  file_name :: jsstring
  file_type :: jsstring
  file_bytes :: "8 word list"

text \<open>
  A parsed JSON value, the result of \<open>JSON.parse\<close>; \<open>JNull\<close> is JavaScript's
  \<open>null\<close>. A number is represented by the real it denotes.
\<close>

datatype json =
    JNull
  | JBool bool
  | JNumber real
  | JString jsstring
  | JArray "json list"
  | JObject "(jsstring \<times> json) list"

text \<open>
  The object literal \<open>data\<close> of \<open>handleAnalyze\<close> (lines 64 to 72); \<open>id'\<close> is its
  field \<open>id\<close>. Where a local variable of the source has the name of a field (\<open>companyName\<close>,
  \<open>jobTitle\<close>, \<open>jobDescription\<close>, \<open>file\<close>, \<open>feedback\<close>), the variable is primed below.
\<close>

record resume_data =
  id' :: jsstring
  resumePath :: jsstring
  imagePath :: jsstring
  companyName :: jsstring
  jobTitle :: jsstring
  jobDescription :: jsstring
  feedback :: json

text \<open>
  The value handed to \<open>kv.set\<close> is \<open>JSON.stringify(data)\<close>. The serialisation is kept
  symbolic: a constructor applied to the object it serialises.
\<close>

datatype kv_value = JSON_stringify resume_data

text \<open>
  Modelled from the spec: the result types of the external collaborators, whose
  declarations are not part of the sources at hand. The Blob Store returns
  \<open>{ path: string } | null\<close>; the rasterizer returns a result carrying an image blob or
  an empty result (\<open>imageFile.file\<close> is a \<open>File\<close> or \<open>null\<close>); the Feedback Generator
  returns \<open>{ message: { content: string | sequence of {text: string} } } | null\<close>.
\<close>

record fsitem =
  path :: jsstring

record PdfConversionResult =
  image_file :: "jsfile option"

record content_part =
  text' :: jsstring

datatype content = Str jsstring | Parts "content_part list"

record ai_message =
  content :: content

record AIResponse =
  message :: ai_message

text \<open>What a call can throw; the \<open>catch\<close> of \<open>handleAnalyze\<close> receives it.\<close>

datatype exn = TypeError | SyntaxError | Thrown jsstring

subsection \<open>Events, state and environment\<close>

datatype event =
    PreventDefault
  | Alert string
  | SetIsProcessing bool
  | SetStatusText string
  | FsUpload "jsfile list" "exn + fsitem option"
  | ConvertPdfToImage jsfile "exn + PdfConversionResult"
  | GenerateUUID jsstring
  | KvSet jsstring kv_value "exn + bool"
  | AiFeedback jsstring jsstring "exn + AIResponse option"
  | ConsoleLog resume_data
  | ConsoleError exn
  | Navigate jsstring

record 'w state =
  world :: 'w
  isProcessing :: bool
  statusText :: string
  "file" :: "jsfile option"
  trace :: "event list"

record 'w env =
  fs_upload :: "jsfile list \<Rightarrow> 'w \<Rightarrow> (exn + fsitem option) \<times> 'w"
  convertPdfToImage :: "jsfile \<Rightarrow> 'w \<Rightarrow> (exn + PdfConversionResult) \<times> 'w"
  generateUUID :: "'w \<Rightarrow> jsstring \<times> 'w"
  prepareInstructions :: "jsstring \<Rightarrow> jsstring \<Rightarrow> jsstring"
  kv_set :: "jsstring \<Rightarrow> kv_value \<Rightarrow> 'w \<Rightarrow> (exn + bool) \<times> 'w"
  ai_feedback :: "jsstring \<Rightarrow> jsstring \<Rightarrow> 'w \<Rightarrow> (exn + AIResponse option) \<times> 'w"
  JSON_parse :: "jsstring \<Rightarrow> exn + json"

definition emit :: "event \<Rightarrow> 'w state \<Rightarrow> 'w state" where
  "emit e st = st\<lparr>trace := trace st @ [e]\<rparr>"

definition setIsProcessing :: "bool \<Rightarrow> 'w state \<Rightarrow> 'w state" where
  "setIsProcessing b st = emit (SetIsProcessing b) (st\<lparr>isProcessing := b\<rparr>)"

definition setStatusText :: "string \<Rightarrow> 'w state \<Rightarrow> 'w state" where
  "setStatusText s st = emit (SetStatusText s) (st\<lparr>statusText := s\<rparr>)"

text \<open>
  \<open>await\<close> of a service call: the service runs on the world, and the call is recorded
  with its outcome.
\<close>

definition await :: "('w \<Rightarrow> 'r \<times> 'w) \<Rightarrow> ('r \<Rightarrow> event) \<Rightarrow> 'w state \<Rightarrow> 'r \<times> 'w state" where
  "await call ev st =
     (case call (world st) of (r, w) \<Rightarrow> (r, emit (ev r) (st\<lparr>world := w\<rparr>)))"

subsection \<open>\<open>handleAnalyze\<close>\<close>

text \<open>
  Lines 88 to 90: the critique text is the content itself when it is a string, and
  otherwise \<open>content[0].text\<close>, which throws a \<open>TypeError\<close> on an empty sequence
  (\<open>content[0]\<close> is \<open>undefined\<close>).
\<close>

definition feedbackText_of :: "AIResponse \<Rightarrow> exn + jsstring" where
  "feedbackText_of fb =
     (case content (message fb) of
        Str s \<Rightarrow> Inr s
      | Parts [] \<Rightarrow> Inl TypeError
      | Parts (p # _) \<Rightarrow> Inr (text' p))"

text \<open>
  The body of the \<open>try\<close> block (lines 35 to 96). The result is \<open>Some e\<close> when \<open>e\<close>
  was thrown, and \<open>None\<close> when the block ran to a \<open>return\<close> or to its end.
\<close>

definition handleAnalyze_try ::
  "'w env \<Rightarrow> jsstring \<Rightarrow> jsstring \<Rightarrow> jsstring \<Rightarrow> jsfile \<Rightarrow> 'w state \<Rightarrow> exn option \<times> 'w state" where
  "handleAnalyze_try env companyName' jobTitle' jobDescription' file' st0 =
    (let st1 = setIsProcessing True st0;
         st2 = setStatusText ''Uploading the file...'' st1
     in case await (fs_upload env [file']) (FsUpload [file']) st2 of
       (Inl e, st3) \<Rightarrow> (Some e, st3)
     | (Inr None, st3) \<Rightarrow>
         (None, setIsProcessing False (setStatusText ''Error: Failed to upload file'' st3))
     | (Inr (Some uploadedFile), st3) \<Rightarrow>
    (let st4 = setStatusText ''Converting to image...'' st3
     in case await (convertPdfToImage env file') (ConvertPdfToImage file') st4 of
       (Inl e, st5) \<Rightarrow> (Some e, st5)
     | (Inr imageFile, st5) \<Rightarrow>
    (case image_file imageFile of
       None \<Rightarrow>
         (None, setIsProcessing False
                  (setStatusText ''Error: Failed to convert PDF to image'' st5))
     | Some image' \<Rightarrow>
    (let st6 = setStatusText ''Uploading the image...'' st5
     in case await (fs_upload env [image']) (FsUpload [image']) st6 of
       (Inl e, st7) \<Rightarrow> (Some e, st7)
     | (Inr None, st7) \<Rightarrow>
         (None, setIsProcessing False (setStatusText ''Error: Failed to upload image'' st7))
     | (Inr (Some uploadedImage), st7) \<Rightarrow>
    (let st8 = setStatusText ''Preparing data...'' st7
     in case await (generateUUID env) GenerateUUID st8 of
       (uuid, st9) \<Rightarrow>
    (let data = \<lparr>id' = uuid,
                 resumePath = path uploadedFile,
                 imagePath = path uploadedImage,
                 companyName = companyName',
                 jobTitle = jobTitle',
                 jobDescription = jobDescription',
                 feedback = JNull\<rparr>;
         key = js ''resume:'' @ uuid
     in case await (kv_set env key (JSON_stringify data))
                   (KvSet key (JSON_stringify data)) st9 of
       (Inl e, st10) \<Rightarrow> (Some e, st10)
     | (Inr _, st10) \<Rightarrow>
    (let st11 = setStatusText ''Analyzing...'' st10;
         instructions = prepareInstructions env jobTitle' jobDescription'
     in case await (ai_feedback env (path uploadedFile) instructions)
                   (AiFeedback (path uploadedFile) instructions) st11 of
       (Inl e, st12) \<Rightarrow> (Some e, st12)
     | (Inr None, st12) \<Rightarrow>
         (None, setIsProcessing False (setStatusText ''Error: Failed to analyze resume'' st12))
     | (Inr (Some feedback'), st12) \<Rightarrow>
    (case feedbackText_of feedback' of
       Inl e \<Rightarrow> (Some e, st12)
     | Inr feedbackText \<Rightarrow>
    (case JSON_parse env feedbackText of
       Inl e \<Rightarrow> (Some e, st12)
     | Inr parsed \<Rightarrow>
    (let data = data\<lparr>feedback := parsed\<rparr>
     in case await (kv_set env key (JSON_stringify data))
                   (KvSet key (JSON_stringify data)) st12 of
       (Inl e, st13) \<Rightarrow> (Some e, st13)
     | (Inr _, st13) \<Rightarrow>
    (let st14 = setStatusText ''Analysis complete, redirecting...'' st13;
         st15 = emit (ConsoleLog data) st14
     in (None, emit (Navigate (js ''/resume/'' @ uuid)) st15))))))))))))"

text \<open>The whole handler: the \<open>try\<close> block and its \<open>catch\<close> (lines 97 to 101).\<close>

definition handleAnalyze ::
  "'w env \<Rightarrow> jsstring \<Rightarrow> jsstring \<Rightarrow> jsstring \<Rightarrow> jsfile \<Rightarrow> 'w state \<Rightarrow> 'w state" where
  "handleAnalyze env companyName' jobTitle' jobDescription' file' st =
     (case handleAnalyze_try env companyName' jobTitle' jobDescription' file' st of
        (None, st') \<Rightarrow> st'
      | (Some error, st') \<Rightarrow>
          setIsProcessing False
            (setStatusText ''Error: Something went wrong during analysis''
               (emit (ConsoleError error) st')))"

subsection \<open>\<open>handleSubmit\<close>\<close>

text \<open>
  Lines 104 to 142. The form data is a map from field names to the submitted strings
  (\<open>FormData.get\<close> gives \<open>null\<close> for a missing field); \<open>file\<close> is read from the
  component state.
\<close>

definition handleSubmit :: "'w env \<Rightarrow> (string \<Rightarrow> jsstring option) \<Rightarrow> 'w state \<Rightarrow> 'w state" where
  "handleSubmit env formData st0 =
    (let st = emit PreventDefault st0;
         companyName' = formData ''company-name'';
         jobTitle' = formData ''job-title'';
         jobDescription' = formData ''job-description''
     in if not_trim companyName' then emit (Alert ''Please enter a company name'') st
        else if not_trim jobTitle' then emit (Alert ''Please enter a job title'') st
        else if not_trim jobDescription' then emit (Alert ''Please enter a job description'') st
        else case file st of
          None \<Rightarrow> emit (Alert ''Please select a PDF file to upload'') st
        | Some f \<Rightarrow>
            if file_type f \<noteq> js ''application/pdf''
            then emit (Alert ''Please upload a PDF file'') st
            else handleAnalyze env (the companyName') (the jobTitle') (the jobDescription') f st)"

subsection \<open>What the component renders\<close>

text \<open>
  Line 173 renders the form only while \<open>!isProcessing\<close>, and line 219 disables the
  submit button when \<open>!file || isProcessing\<close>.
\<close>

definition form_rendered :: "'w state \<Rightarrow> bool" where
  "form_rendered st = (\<not> isProcessing st)"

definition submit_disabled :: "'w state \<Rightarrow> bool" where
  "submit_disabled st = (file st = None \<or> isProcessing st)"

subsection \<open>Reading a run\<close>

text \<open>The events that one invocation of \<open>handleAnalyze\<close> appends to the trace.\<close>

definition events ::
  "'w env \<Rightarrow> jsstring \<Rightarrow> jsstring \<Rightarrow> jsstring \<Rightarrow> jsfile \<Rightarrow> 'w state \<Rightarrow> event list" where
  "events env cn jt jd f st = drop (length (trace st)) (trace (handleAnalyze env cn jt jd f st))"

text \<open>The calls to the four external services, among the events.\<close>

fun is_service_call :: "event \<Rightarrow> bool" where
  "is_service_call (FsUpload _ _) = True"
| "is_service_call (ConvertPdfToImage _ _) = True"
| "is_service_call (KvSet _ _ _) = True"
| "is_service_call (AiFeedback _ _ _) = True"
| "is_service_call _ = False"

definition service_calls :: "event list \<Rightarrow> event list" where
  "service_calls es = filter is_service_call es"

fun is_KvSet :: "event \<Rightarrow> bool" where
  "is_KvSet (KvSet _ _ _) = True"
| "is_KvSet _ = False"

fun is_Navigate :: "event \<Rightarrow> bool" where
  "is_Navigate (Navigate _) = True"
| "is_Navigate _ = False"

fun is_AiFeedback :: "event \<Rightarrow> bool" where
  "is_AiFeedback (AiFeedback _ _ _) = True"
| "is_AiFeedback _ = False"

fun is_ConvertPdfToImage :: "event \<Rightarrow> bool" where
  "is_ConvertPdfToImage (ConvertPdfToImage _ _) = True"
| "is_ConvertPdfToImage _ = False"

fun is_FsUpload_of :: "jsfile \<Rightarrow> event \<Rightarrow> bool" where
  "is_FsUpload_of f (FsUpload fs _) = (fs = [f])"
| "is_FsUpload_of f _ = False"

text \<open>
  An error reaches the user or the console: an alert, a \<open>console.error\<close>, or a status
  text that starts with \<open>Error:\<close>.
\<close>

fun is_error_report :: "event \<Rightarrow> bool" where
  "is_error_report (Alert _) = True"
| "is_error_report (ConsoleError _) = True"
| "is_error_report (SetStatusText s) = (take 6 s = ''Error:'')"
| "is_error_report _ = False"

text \<open>
  \<open>occurs_before P Q es\<close>: an event with \<open>P\<close> occurs in \<open>es\<close>, and an event with
  \<open>Q\<close> occurs after the first of them.
\<close>

definition occurs_before :: "(event \<Rightarrow> bool) \<Rightarrow> (event \<Rightarrow> bool) \<Rightarrow> event list \<Rightarrow> bool" where
  "occurs_before P Q es = list_ex Q (drop 1 (dropWhile (\<lambda>e. \<not> P e) es))"

text \<open>A form field that is absent, empty, or made of white space only.\<close>

definition empty_or_whitespace :: "jsstring option \<Rightarrow> bool" where
  "empty_or_whitespace x = (case x of None \<Rightarrow> True | Some s \<Rightarrow> list_all isWhiteSpace s)"

text \<open>
  Modelled from the spec: the Key-Value Store, whose implementation is not part of the
  sources at hand. A \<open>set\<close> that reports success stores the value under the key, and
  \<open>get\<close> retrieves the value stored last; a \<open>set\<close> that throws or reports failure
  stores nothing.
\<close>

fun kv_after :: "event list \<Rightarrow> (jsstring \<rightharpoonup> kv_value) \<Rightarrow> (jsstring \<rightharpoonup> kv_value)" where
  "kv_after [] m = m"
| "kv_after (KvSet k v (Inr True) # es) m = kv_after es (m(k \<mapsto> v))"
| "kv_after (_ # es) m = kv_after es m"

subsection \<open>A scripted environment\<close>

text \<open>
  A test double for the external services: the outcome of each call of the pipeline is
  read from a script. The world is the number of calls made so far (the pipeline's first
  call is the upload of the original file, its fifth the provisional write).
\<close>

record script =
  upload_original :: "exn + fsitem option"
  rasterize :: "exn + PdfConversionResult"
  upload_image :: "exn + fsitem option"
  uuid :: jsstring
  write_provisional :: "exn + bool"
  critique :: "exn + AIResponse option"
  write_final :: "exn + bool"
  parse :: "jsstring \<Rightarrow> exn + json"

definition scripted :: "script \<Rightarrow> nat env" where
  "scripted s =
     \<lparr>fs_upload = (\<lambda>files n. (if n = 0 then upload_original s else upload_image s, Suc n)),
      convertPdfToImage = (\<lambda>f n. (rasterize s, Suc n)),
      generateUUID = (\<lambda>n. (uuid s, Suc n)),
      prepareInstructions = (\<lambda>jt jd. jt @ js ''; '' @ jd),
      kv_set = (\<lambda>k v n. (if n \<le> 4 then write_provisional s else write_final s, Suc n)),
      ai_feedback = (\<lambda>p i n. (critique s, Suc n)),
      JSON_parse = parse s\<rparr>"

text \<open>
  \<open>JSON.parse\<close> on the three texts the examples use: an object, the literal
  \<open>null\<close>, and anything else taken as malformed.
\<close>

definition parse_example :: "jsstring \<Rightarrow> exn + json" where
  "parse_example t =
     (if t = js ''{\"score\":80}'' then Inr (JObject [(js ''score'', JNumber 80)])
      else if t = js ''null'' then Inr JNull
      else Inl SyntaxError)"

definition resume_pdf :: jsfile where
  "resume_pdf = \<lparr>file_name = js ''cv.pdf'', file_type = js ''application/pdf'',
                  file_bytes = [0x25, 0x50, 0x44, 0x46]\<rparr>"

definition resume_png :: jsfile where
  "resume_png = \<lparr>file_name = js ''cv.png'', file_type = js ''image/png'',
                  file_bytes = [0x89, 0x50, 0x4E, 0x47]\<rparr>"

definition critique_string :: AIResponse where
  "critique_string = \<lparr>message = \<lparr>content = Str (js ''{\"score\":80}'')\<rparr>\<rparr>"

definition critique_parts :: AIResponse where
  "critique_parts = \<lparr>message = \<lparr>content = Parts [\<lparr>text' = js ''{\"score\":80}''\<rparr>]\<rparr>\<rparr>"

text \<open>The script in which every service succeeds.\<close>

definition all_succeed :: script where
  "all_succeed =
     \<lparr>upload_original = Inr (Some \<lparr>path = js ''/u/cv.pdf''\<rparr>),
      rasterize = Inr \<lparr>image_file = Some resume_png\<rparr>,
      upload_image = Inr (Some \<lparr>path = js ''/u/cv.png''\<rparr>),
      uuid = js ''42'',
      write_provisional = Inr True,
      critique = Inr (Some critique_string),
      write_final = Inr True,
      parse = parse_example\<rparr>"

text \<open>The other scripts differ from \<open>all_succeed\<close> in one outcome each.\<close>

definition upload_fails :: script where
  "upload_fails = all_succeed\<lparr>upload_original := Inr None\<rparr>"

definition feedback_fails :: script where
  "feedback_fails = all_succeed\<lparr>critique := Inr None\<rparr>"

definition critique_in_parts :: script where
  "critique_in_parts = all_succeed\<lparr>critique := Inr (Some critique_parts)\<rparr>"

definition critique_malformed :: script where
  "critique_malformed =
     all_succeed\<lparr>critique := Inr (Some \<lparr>message = \<lparr>content = Str (js ''Sure! {'')\<rparr>\<rparr>)\<rparr>"

definition critique_null :: script where
  "critique_null =
     all_succeed\<lparr>critique := Inr (Some \<lparr>message = \<lparr>content = Str (js ''null'')\<rparr>\<rparr>)\<rparr>"

definition write_reports_failure :: script where
  "write_reports_failure = all_succeed\<lparr>write_provisional := Inr False\<rparr>"

definition write_throws :: script where
  "write_throws = all_succeed\<lparr>write_provisional := Inl (Thrown (js ''quota exceeded''))\<rparr>"

text \<open>The component's initial state, with the file \<open>f\<close> selected.\<close>

definition initial :: "jsfile option \<Rightarrow> nat state" where
  "initial f = \<lparr>world = 0, isProcessing = False, statusText = [], file = f, trace = []\<rparr>"

text \<open>
  The end-to-end scenario: the company \<open>Acme\<close>, the title \<open>Engineer\<close>, the description
  \<open>Build things\<close> and a PDF, run from the initial state against a script; \<open>stored v\<close>
  is the record this run writes, with feedback \<open>v\<close>.
\<close>

abbreviation run_events :: "script \<Rightarrow> event list" where
  "run_events s \<equiv> events (scripted s) (js ''Acme'') (js ''Engineer'') (js ''Build things'')
      resume_pdf (initial (Some resume_pdf))"

abbreviation run :: "script \<Rightarrow> nat state" where
  "run s \<equiv> handleAnalyze (scripted s) (js ''Acme'') (js ''Engineer'') (js ''Build things'')
      resume_pdf (initial (Some resume_pdf))"

definition stored :: "json \<Rightarrow> resume_data" where
  "stored v = \<lparr>id' = js ''42'', resumePath = js ''/u/cv.pdf'', imagePath = js ''/u/cv.png'',
     companyName = js ''Acme'', jobTitle = js ''Engineer'', jobDescription = js ''Build things'',
     feedback = v\<rparr>"

text \<open>Form data: every field holds \<open>v\<close>, except that \<open>company-name\<close> holds \<open>c\<close>.\<close>

definition form_with :: "jsstring option \<Rightarrow> jsstring \<Rightarrow> string \<Rightarrow> jsstring option" where
  "form_with c v name = (if name = ''company-name'' then c else Some v)"

section \<open>Properties\<close>

subsection \<open>The paths through \<open>handleAnalyze\<close>\<close>

text \<open>
  Every invocation takes one of thirteen paths: a service call throws, a service
  returns nothing, the critique cannot be extracted or parsed, or the pipeline runs to
  its end. For each path the rule gives the events of the invocation and what the
  component state holds afterwards.
\<close>

lemmas pipeline_defs = handleAnalyze_def handleAnalyze_try_def await_def setStatusText_def
  setIsProcessing_def emit_def events_def

lemmas run_defs = pipeline_defs scripted_def all_succeed_def initial_def feedbackText_of_def
  parse_example_def critique_string_def critique_parts_def stored_def resume_pdf_def
  resume_png_def js_def Let_def

lemma handleAnalyze_paths:
  fixes env :: "'w env" and cn jt jd f st
    and es st' caught stopped A B C D E F G rec failed generic
  defines "es \<equiv> events env cn jt jd f st"
    and "st' \<equiv> handleAnalyze env cn jt jd f st"
    and "caught \<equiv> \<lambda>e. [ConsoleError e,
           SetStatusText ''Error: Something went wrong during analysis'', SetIsProcessing False]"
    and "stopped \<equiv> \<lambda>msg. [SetStatusText msg, SetIsProcessing False]"
    and "A \<equiv> \<lambda>r. [SetIsProcessing True, SetStatusText ''Uploading the file...'', FsUpload [f] r]"
    and "B \<equiv> \<lambda>r. [SetStatusText ''Converting to image...'', ConvertPdfToImage f r]"
    and "C \<equiv> \<lambda>img r. [SetStatusText ''Uploading the image...'', FsUpload [img] r]"
    and "D \<equiv> \<lambda>u d r. [SetStatusText ''Preparing data...'', GenerateUUID u,
           KvSet (js ''resume:'' @ u) (JSON_stringify d) r]"
    and "E \<equiv> \<lambda>p r. [SetStatusText ''Analyzing...'',
           AiFeedback p (prepareInstructions env jt jd) r]"
    and "F \<equiv> \<lambda>u d r. [KvSet (js ''resume:'' @ u) (JSON_stringify d) r]"
    and "G \<equiv> \<lambda>u d. [SetStatusText ''Analysis complete, redirecting...'', ConsoleLog d,
           Navigate (js ''/resume/'' @ u)]"
    and "rec \<equiv> \<lambda>u uf ui v. \<lparr>id' = u, resumePath = path uf, imagePath = path ui,
           companyName = cn, jobTitle = jt, jobDescription = jd, feedback = v\<rparr>"
    and "failed \<equiv> \<lambda>msg. \<not> isProcessing st' \<and> statusText st' = msg \<and> file st' = file st"
    and "generic \<equiv> ''Error: Something went wrong during analysis''"
  obtains
    (upload_threw) e where
      "es = A (Inl e) @ caught e" "failed generic"
  | (upload_failed)
      "es = A (Inr None) @ stopped ''Error: Failed to upload file''"
      "failed ''Error: Failed to upload file''"
  | (convert_threw) uf e where
      "es = A (Inr (Some uf)) @ B (Inl e) @ caught e" "failed generic"
  | (convert_failed) uf c where
      "es = A (Inr (Some uf)) @ B (Inr c) @ stopped ''Error: Failed to convert PDF to image''"
      "image_file c = None" "failed ''Error: Failed to convert PDF to image''"
  | (upload_image_threw) uf c img e where
      "es = A (Inr (Some uf)) @ B (Inr c) @ C img (Inl e) @ caught e"
      "image_file c = Some img" "failed generic"
  | (upload_image_failed) uf c img where
      "es = A (Inr (Some uf)) @ B (Inr c) @ C img (Inr None) @
            stopped ''Error: Failed to upload image''"
      "image_file c = Some img" "failed ''Error: Failed to upload image''"
  | (persist_threw) uf c img ui u e where
      "es = A (Inr (Some uf)) @ B (Inr c) @ C img (Inr (Some ui)) @
            D u (rec u uf ui JNull) (Inl e) @ caught e"
      "image_file c = Some img" "failed generic"
  | (feedback_threw) uf c img ui u b e where
      "es = A (Inr (Some uf)) @ B (Inr c) @ C img (Inr (Some ui)) @
            D u (rec u uf ui JNull) (Inr b) @ E (path uf) (Inl e) @ caught e"
      "image_file c = Some img" "failed generic"
  | (feedback_failed) uf c img ui u b where
      "es = A (Inr (Some uf)) @ B (Inr c) @ C img (Inr (Some ui)) @
            D u (rec u uf ui JNull) (Inr b) @ E (path uf) (Inr None) @
            stopped ''Error: Failed to analyze resume''"
      "image_file c = Some img" "failed ''Error: Failed to analyze resume''"
  | (extract_threw) uf c img ui u b fb e where
      "es = A (Inr (Some uf)) @ B (Inr c) @ C img (Inr (Some ui)) @
            D u (rec u uf ui JNull) (Inr b) @ E (path uf) (Inr (Some fb)) @ caught e"
      "image_file c = Some img" "feedbackText_of fb = Inl e" "failed generic"
  | (parse_threw) uf c img ui u b fb t e where
      "es = A (Inr (Some uf)) @ B (Inr c) @ C img (Inr (Some ui)) @
            D u (rec u uf ui JNull) (Inr b) @ E (path uf) (Inr (Some fb)) @ caught e"
      "image_file c = Some img" "feedbackText_of fb = Inr t" "JSON_parse env t = Inl e"
      "failed generic"
  | (finalize_threw) uf c img ui u b fb t v e where
      "es = A (Inr (Some uf)) @ B (Inr c) @ C img (Inr (Some ui)) @
            D u (rec u uf ui JNull) (Inr b) @ E (path uf) (Inr (Some fb)) @
            F u (rec u uf ui v) (Inl e) @ caught e"
      "image_file c = Some img" "feedbackText_of fb = Inr t" "JSON_parse env t = Inr v"
      "failed generic"
  | (completed) uf c img ui u b fb t v b' where
      "es = A (Inr (Some uf)) @ B (Inr c) @ C img (Inr (Some ui)) @
            D u (rec u uf ui JNull) (Inr b) @ E (path uf) (Inr (Some fb)) @
            F u (rec u uf ui v) (Inr b') @ G u (rec u uf ui v)"
      "image_file c = Some img" "feedbackText_of fb = Inr t" "JSON_parse env t = Inr v"
      "isProcessing st'" "statusText st' = ''Analysis complete, redirecting...''"
      "file st' = file st"
proof -
  note defs = es_def st'_def caught_def stopped_def A_def B_def C_def D_def E_def F_def G_def
    rec_def failed_def generic_def pipeline_defs Let_def
  obtain r1 w1 where c1: "fs_upload env [f] (world st) = (r1, w1)"
    by (cases "fs_upload env [f] (world st)")
  show thesis
  proof (cases r1)
    case (Inl e)
    with c1 show thesis by (intro upload_threw [where e = e]) (simp_all add: defs)
  next
    case r1: (Inr o1)
    show thesis
    proof (cases o1)
      case None
      with c1 r1 show thesis by (intro upload_failed) (simp_all add: defs)
    next
      case o1: (Some uf)
      note c1' = c1 [unfolded r1 o1]
      obtain r2 w2 where c2: "convertPdfToImage env f w1 = (r2, w2)"
        by (cases "convertPdfToImage env f w1")
      show thesis
      proof (cases r2)
        case (Inl e)
        with c1' c2 show thesis by (intro convert_threw [where uf = uf and e = e]) (simp_all add: defs)
      next
        case r2: (Inr c)
        note c2' = c2 [unfolded r2]
        show thesis
        proof (cases "image_file c")
          case None
          with c1' c2' show thesis by (intro convert_failed [where uf = uf and c = c]) (simp_all add: defs)
        next
          case img: (Some img)
          obtain r3 w3 where c3: "fs_upload env [img] w2 = (r3, w3)"
            by (cases "fs_upload env [img] w2")
          show thesis
          proof (cases r3)
            case (Inl e)
            with c1' c2' img c3 show thesis
              by (intro upload_image_threw [where uf = uf and c = c and img = img and e = e]) (simp_all add: defs)
          next
            case r3: (Inr o3)
            show thesis
            proof (cases o3)
              case None
              with c1' c2' img c3 r3 show thesis
                by (intro upload_image_failed [where uf = uf and c = c and img = img]) (simp_all add: defs)
            next
              case o3: (Some ui)
              note c3' = c3 [unfolded r3 o3]
              obtain u w4 where c4: "generateUUID env w3 = (u, w4)"
                by (cases "generateUUID env w3")
              obtain r5 w5 where c5: "kv_set env (js ''resume:'' @ u)
                  (JSON_stringify \<lparr>id' = u, resumePath = path uf, imagePath = path ui,
                     companyName = cn, jobTitle = jt, jobDescription = jd, feedback = JNull\<rparr>) w4
                  = (r5, w5)"
                by (cases "kv_set env (js ''resume:'' @ u)
                  (JSON_stringify \<lparr>id' = u, resumePath = path uf, imagePath = path ui,
                     companyName = cn, jobTitle = jt, jobDescription = jd, feedback = JNull\<rparr>) w4")
              note pre = c1' c2' img c3' c4
              show thesis
              proof (cases r5)
                case (Inl e)
                with pre c5 show thesis
                  by (intro persist_threw [where uf = uf and c = c and img = img and ui = ui and u = u and e = e]) (simp_all add: defs)
              next
                case r5: (Inr b)
                note c5' = c5 [unfolded r5]
                obtain r6 w6 where
                  c6: "ai_feedback env (path uf) (prepareInstructions env jt jd) w5 = (r6, w6)"
                  by (cases "ai_feedback env (path uf) (prepareInstructions env jt jd) w5")
                show thesis
                proof (cases r6)
                  case (Inl e)
                  with pre c5' c6 show thesis
                    by (intro feedback_threw [where uf = uf and c = c and img = img and ui = ui and u = u and b = b and e = e]) (simp_all add: defs)
                next
                  case r6: (Inr o6)
                  show thesis
                  proof (cases o6)
                    case None
                    with pre c5' c6 r6 show thesis
                      by (intro feedback_failed [where uf = uf and c = c and img = img and ui = ui and u = u and b = b]) (simp_all add: defs)
                  next
                    case o6: (Some fb)
                    note c6' = c6 [unfolded r6 o6]
                    show thesis
                    proof (cases "feedbackText_of fb")
                      case (Inl e)
                      with pre c5' c6' show thesis
                        by (intro extract_threw [where uf = uf and c = c and img = img and ui = ui and u = u and b = b and fb = fb and e = e]) (simp_all add: defs)
                    next
                      case t: (Inr t)
                      show thesis
                      proof (cases "JSON_parse env t")
                        case (Inl e)
                        with pre c5' c6' t show thesis
                          by (intro parse_threw [where uf = uf and c = c and img = img and ui = ui and u = u and b = b and fb = fb and t = t and e = e]) (simp_all add: defs)
                      next
                        case v: (Inr v)
                        obtain r7 w7 where c7: "kv_set env (js ''resume:'' @ u)
                            (JSON_stringify \<lparr>id' = u, resumePath = path uf, imagePath = path ui,
                               companyName = cn, jobTitle = jt, jobDescription = jd,
                               feedback = v\<rparr>) w6 = (r7, w7)"
                          by (cases "kv_set env (js ''resume:'' @ u)
                            (JSON_stringify \<lparr>id' = u, resumePath = path uf, imagePath = path ui,
                               companyName = cn, jobTitle = jt, jobDescription = jd,
                               feedback = v\<rparr>) w6")
                        show thesis
                        proof (cases r7)
                          case (Inl e)
                          with pre c5' c6' t v c7 show thesis
                            by (intro finalize_threw [where uf = uf and c = c and img = img and ui = ui and u = u and b = b and fb = fb and t = t and v = v and e = e])
                              (simp_all add: defs)
                        next
                          case (Inr b')
                          with pre c5' c6' t v c7 show thesis
                            by (intro completed [where uf = uf and c = c and img = img and ui = ui and u = u and b = b and fb = fb and t = t and v = v and b' = b']) (simp_all add: defs)
                        qed
                      qed
                    qed
                  qed
                qed
              qed
            qed
          qed
        qed
      qed
    qed
  qed
qed

subsection \<open>Helper lemmas\<close>

text \<open>A string trims to the empty string exactly when all its code units are white space.\<close>

lemma trim_empty_iff: "trim s = [] \<longleftrightarrow> list_all isWhiteSpace s"
proof -
  let ?d = "dropWhile isWhiteSpace s"
  have "trim s = [] \<longleftrightarrow> dropWhile isWhiteSpace (rev ?d) = []"
    by (simp add: trim_def)
  also have "\<dots> \<longleftrightarrow> ?d = []"
  proof
    assume a: "dropWhile isWhiteSpace (rev ?d) = []"
    show "?d = []"
    proof (rule ccontr)
      assume n: "?d \<noteq> []"
      then have "\<not> isWhiteSpace (hd ?d)" by (rule hd_dropWhile)
      moreover have "hd ?d \<in> set (rev ?d)" using n by simp
      ultimately show False using a by (simp add: dropWhile_eq_Nil_conv del: set_rev)
    qed
  next
    assume e: "?d = []"
    show "dropWhile isWhiteSpace (rev ?d) = []" unfolding e by simp
  qed
  also have "\<dots> \<longleftrightarrow> list_all isWhiteSpace s"
    by (simp add: dropWhile_eq_Nil_conv list_all_iff)
  finally show ?thesis .
qed

text \<open>What one \<open>set\<close> does to the store.\<close>

lemma kv_after_KvSet:
  "kv_after (KvSet k v r # es) m = kv_after es (if r = Inr True then m(k \<mapsto> v) else m)"
proof (cases r)
  case (Inl e)
  then show ?thesis by simp
next
  case (Inr b)
  then show ?thesis by (cases b) simp_all
qed

lemma not_trim_iff: "not_trim x \<longleftrightarrow> empty_or_whitespace x"
  by (simp add: not_trim_def empty_or_whitespace_def trim_empty_iff split: option.splits)

subsection \<open>The validation gate\<close>

text \<open>
  Claim C1. When \<open>companyName\<close>, \<open>jobTitle\<close> or \<open>jobDescription\<close> is absent, empty
  or white space only, or no file is selected, or the selected file's declared type is
  not \<open>application/pdf\<close>, then \<open>handleSubmit\<close> calls none of the Blob Store, the
  rasterizer, the Feedback Generator and the KV Store: all it does is
  \<open>preventDefault\<close> and one alert, and the rest of the state, the world of the services
  included, is as before.
\<close>

theorem validation_gate:
  assumes "empty_or_whitespace (formData ''company-name'') \<or>
           empty_or_whitespace (formData ''job-title'') \<or>
           empty_or_whitespace (formData ''job-description'') \<or>
           file st = None \<or>
           (\<exists>f. file st = Some f \<and> file_type f \<noteq> js ''application/pdf'')"
  shows "\<exists>msg. handleSubmit env formData st = st\<lparr>trace := trace st @ [PreventDefault, Alert msg]\<rparr>"
  using assms
  by (auto simp: handleSubmit_def Let_def emit_def not_trim_iff split: option.splits)

text \<open>The gate on a form whose company name is two spaces.\<close>

theorem validation_gate_witness:
  "empty_or_whitespace (form_with (Some (js ''  '')) (js ''x'') ''company-name'') \<and>
   (\<exists>msg. handleSubmit (scripted all_succeed) (form_with (Some (js ''  '')) (js ''x''))
             (initial (Some resume_pdf))
         = (initial (Some resume_pdf))
             \<lparr>trace := trace (initial (Some resume_pdf)) @ [PreventDefault, Alert msg]\<rparr>)"
proof -
  have h: "empty_or_whitespace (form_with (Some (js ''  '')) (js ''x'') ''company-name'')"
    by (simp add: empty_or_whitespace_def form_with_def js_def isWhiteSpace_def)
  show ?thesis
    by (rule conjI [OF h validation_gate
        [where formData = "form_with (Some (js ''  '')) (js ''x'')"
           and st = "initial (Some resume_pdf)" and env = "scripted all_succeed",
         OF disjI1 [OF h]]])
qed

subsection \<open>Failure of the first upload\<close>

text \<open>
  Claim C2. When the upload of the original file returns nothing, the invocation consists
  of exactly five events: the processing flag is set, the status says that the file is
  being uploaded, the upload is called, the status reports
  \<open>Error: Failed to upload file\<close>, and the processing flag is reset. No rasterization,
  no image upload, no KV write and no feedback request happen, and the pipeline stops.
\<close>

theorem fail_fast:
  assumes "fs_upload env [f] (world st) = (Inr None, w)"
  shows "handleAnalyze env cn jt jd f st =
     st\<lparr>world := w, isProcessing := False, statusText := ''Error: Failed to upload file'',
        trace := trace st @
          [SetIsProcessing True, SetStatusText ''Uploading the file...'',
           FsUpload [f] (Inr None),
           SetStatusText ''Error: Failed to upload file'', SetIsProcessing False]\<rparr>"
  using assms by (simp add: pipeline_defs)

text \<open>The scripted run in which the first upload returns nothing.\<close>

theorem fail_fast_witness:
  "fs_upload (scripted upload_fails) [resume_pdf] (world (initial (Some resume_pdf)))
     = (Inr None, Suc 0) \<and>
   run upload_fails =
     (initial (Some resume_pdf))
       \<lparr>world := Suc 0, isProcessing := False, statusText := ''Error: Failed to upload file'',
        trace := trace (initial (Some resume_pdf)) @
          [SetIsProcessing True, SetStatusText ''Uploading the file...'',
           FsUpload [resume_pdf] (Inr None),
           SetStatusText ''Error: Failed to upload file'', SetIsProcessing False]\<rparr>"
proof -
  have h: "fs_upload (scripted upload_fails) [resume_pdf] (world (initial (Some resume_pdf)))
     = (Inr None, Suc 0)"
    by (simp add: scripted_def upload_fails_def all_succeed_def initial_def)
  show ?thesis by (rule conjI [OF h fail_fast [OF h]])
qed

subsection \<open>Critique extraction\<close>

text \<open>
  Claim C3. When the Feedback Generator answers with content that is a string \<open>t\<close>, or
  with a sequence of parts whose first part has the text \<open>t\<close>, and \<open>JSON.parse\<close>
  turns \<open>t\<close> into \<open>v\<close>, then the invocation makes two KV writes under one key, and the
  second one writes the record of the first with \<open>feedback\<close> set to \<open>v\<close>; if that
  write reports success, this is the record the store then holds under the key.
\<close>

theorem critique_extraction:
  assumes "AiFeedback p i (Inr (Some fb)) \<in> set (events env cn jt jd f st)"
    and "content (message fb) = Str t \<or>
         (\<exists>part parts. content (message fb) = Parts (part # parts) \<and> text' part = t)"
    and "JSON_parse env t = Inr v"
  shows "\<exists>k d r r'.
           filter is_KvSet (events env cn jt jd f st) =
             [KvSet k (JSON_stringify d) r, KvSet k (JSON_stringify (d\<lparr>feedback := v\<rparr>)) r'] \<and>
           (r' = Inr True \<longrightarrow>
              kv_after (events env cn jt jd f st) m k = Some (JSON_stringify (d\<lparr>feedback := v\<rparr>)))"
proof -
  from assms(2) have t: "feedbackText_of fb = Inr t"
    by (auto simp: feedbackText_of_def)
  show ?thesis
  proof (cases rule: handleAnalyze_paths [of env cn jt jd f st])
    case (finalize_threw uf c img ui u b fb' t' v' e)
    with assms(1,3) t have "v' = v" by auto
    with finalize_threw(1) show ?thesis
      by (intro exI [of _ "js ''resume:'' @ u"]
            exI [of _ "\<lparr>id' = u, resumePath = path uf, imagePath = path ui, companyName = cn,
                        jobTitle = jt, jobDescription = jd, feedback = JNull\<rparr>"]
            exI [of _ "Inr b"] exI [of _ "Inl e"]) simp
  next
    case (completed uf c img ui u b fb' t' v' b')
    with assms(1,3) t have "v' = v" by auto
    with completed(1) show ?thesis
      by (intro exI [of _ "js ''resume:'' @ u"]
            exI [of _ "\<lparr>id' = u, resumePath = path uf, imagePath = path ui, companyName = cn,
                        jobTitle = jt, jobDescription = jd, feedback = JNull\<rparr>"]
            exI [of _ "Inr b"] exI [of _ "Inr b'"]) (simp add: kv_after_KvSet)
  qed (use assms(1,3) t in auto)
qed

text \<open>
  The two examples: the content is the string \<open>{"score":80}\<close>, and the content is the
  one-element sequence \<open>[{text: '{"score":80}'}]\<close>. Both runs make the same KV writes,
  and the second write stores the feedback \<open>{score: 80}\<close>.
\<close>

theorem critique_extraction_witness:
  "AiFeedback (js ''/u/cv.pdf'') (js ''Engineer; Build things'') (Inr (Some critique_string))
     \<in> set (run_events all_succeed) \<and>
   content (message critique_string) = Str (js ''{\"score\":80}'') \<and>
   JSON_parse (scripted all_succeed) (js ''{\"score\":80}'')
     = Inr (JObject [(js ''score'', JNumber 80)]) \<and>
   (\<exists>k d r r'.
      filter is_KvSet (run_events all_succeed) =
        [KvSet k (JSON_stringify d) r,
         KvSet k (JSON_stringify (d\<lparr>feedback := JObject [(js ''score'', JNumber 80)]\<rparr>)) r'] \<and>
      (r' = Inr True \<longrightarrow>
         kv_after (run_events all_succeed) Map.empty k =
           Some (JSON_stringify (d\<lparr>feedback := JObject [(js ''score'', JNumber 80)]\<rparr>)))) \<and>
   AiFeedback (js ''/u/cv.pdf'') (js ''Engineer; Build things'') (Inr (Some critique_parts))
     \<in> set (run_events critique_in_parts) \<and>
   content (message critique_parts) = Parts [\<lparr>text' = js ''{\"score\":80}''\<rparr>] \<and>
   filter is_KvSet (run_events critique_in_parts) = filter is_KvSet (run_events all_succeed)"
proof -
  let ?t = "js ''{\"score\":80}''"
  have h1: "AiFeedback (js ''/u/cv.pdf'') (js ''Engineer; Build things'')
      (Inr (Some critique_string)) \<in> set (run_events all_succeed)"
    by (simp add: run_defs)
  have c: "content (message critique_string) = Str ?t"
    by (simp add: critique_string_def)
  have h3: "JSON_parse (scripted all_succeed) ?t = Inr (JObject [(js ''score'', JNumber 80)])"
    by (simp add: scripted_def all_succeed_def parse_example_def)
  have h4: "AiFeedback (js ''/u/cv.pdf'') (js ''Engineer; Build things'')
      (Inr (Some critique_parts)) \<in> set (run_events critique_in_parts)"
    by (simp add: run_defs critique_in_parts_def)
  have c': "content (message critique_parts) = Parts [\<lparr>text' = ?t\<rparr>]"
    by (simp add: critique_parts_def)
  have same: "filter is_KvSet (run_events critique_in_parts) = filter is_KvSet (run_events all_succeed)"
    by (simp add: run_defs critique_in_parts_def)
  note main = critique_extraction [OF h1 disjI1 [OF c] h3, of Map.empty]
  show ?thesis
    by (rule conjI [OF h1 conjI [OF c conjI [OF h3 conjI [OF main conjI [OF h4 conjI [OF c' same]]]]]])
qed

subsection \<open>Partial durability\<close>

text \<open>
  Claim C4. When a KV write of the invocation reported success and the Feedback Generator
  returned nothing, then that write is the only KV write of the invocation; its key is
  \<open>resume:\<close> followed by the generated identifier; the record written has that
  identifier, the paths that the two uploads returned, the three form fields, and
  \<open>feedback\<close> null; and this record is what the store holds under the key afterwards.
\<close>

theorem partial_durability:
  assumes "KvSet k d (Inr True) \<in> set (events env cn jt jd f st)"
    and "AiFeedback p i (Inr None) \<in> set (events env cn jt jd f st)"
  shows "\<exists>uploadedFile image uploadedImage uuid.
           FsUpload [f] (Inr (Some uploadedFile)) \<in> set (events env cn jt jd f st) \<and>
           FsUpload [image] (Inr (Some uploadedImage)) \<in> set (events env cn jt jd f st) \<and>
           k = js ''resume:'' @ uuid \<and>
           d = JSON_stringify
                 \<lparr>id' = uuid, resumePath = path uploadedFile, imagePath = path uploadedImage,
                  companyName = cn, jobTitle = jt, jobDescription = jd, feedback = JNull\<rparr> \<and>
           filter is_KvSet (events env cn jt jd f st) = [KvSet k d (Inr True)] \<and>
           kv_after (events env cn jt jd f st) m k = Some d"
proof (cases rule: handleAnalyze_paths [of env cn jt jd f st])
  case (feedback_failed uf c img ui u b)
  with assms show ?thesis
    by (intro exI [of _ uf] exI [of _ img] exI [of _ ui] exI [of _ u]) (auto simp: kv_after_KvSet)
qed (use assms in auto)

text \<open>The scripted run in which the Feedback Generator returns nothing.\<close>

theorem partial_durability_witness:
  "KvSet (js ''resume:42'') (JSON_stringify (stored JNull)) (Inr True)
     \<in> set (run_events feedback_fails) \<and>
   AiFeedback (js ''/u/cv.pdf'') (js ''Engineer; Build things'') (Inr None)
     \<in> set (run_events feedback_fails) \<and>
   (\<exists>uploadedFile image uploadedImage uuid.
           FsUpload [resume_pdf] (Inr (Some uploadedFile)) \<in> set (run_events feedback_fails) \<and>
           FsUpload [image] (Inr (Some uploadedImage)) \<in> set (run_events feedback_fails) \<and>
           js ''resume:42'' = js ''resume:'' @ uuid \<and>
           JSON_stringify (stored JNull) = JSON_stringify
                 \<lparr>id' = uuid, resumePath = path uploadedFile, imagePath = path uploadedImage,
                  companyName = js ''Acme'', jobTitle = js ''Engineer'',
                  jobDescription = js ''Build things'', feedback = JNull\<rparr> \<and>
           filter is_KvSet (run_events feedback_fails) =
             [KvSet (js ''resume:42'') (JSON_stringify (stored JNull)) (Inr True)] \<and>
           kv_after (run_events feedback_fails) Map.empty (js ''resume:42'')
             = Some (JSON_stringify (stored JNull)))"
proof -
  have h1: "KvSet (js ''resume:42'') (JSON_stringify (stored JNull)) (Inr True)
     \<in> set (run_events feedback_fails)"
    by (simp add: run_defs feedback_fails_def)
  have h2: "AiFeedback (js ''/u/cv.pdf'') (js ''Engineer; Build things'') (Inr None)
     \<in> set (run_events feedback_fails)"
    by (simp add: run_defs feedback_fails_def)
  show ?thesis
    by (rule conjI [OF h1 conjI [OF h2 partial_durability [OF h1 h2, of Map.empty]]])
qed

subsection \<open>Monotonic record construction\<close>

text \<open>
  Claim C5 says that after every successful run the final record differs from the
  provisional one in \<open>feedback\<close>, null before and populated after. In the scripted run
  whose critique text is the JSON literal \<open>null\<close> the run succeeds (it navigates), and
  the two writes store the same record, with \<open>feedback\<close> null in both.
\<close>

theorem monotonic_record_counterexample:
  "list_ex is_Navigate (run_events critique_null) \<and>
   filter is_KvSet (run_events critique_null) =
     [KvSet (js ''resume:42'') (JSON_stringify (stored JNull)) (Inr True),
      KvSet (js ''resume:42'') (JSON_stringify (stored JNull)) (Inr True)]"
  by (simp add: run_defs critique_null_def)

text \<open>
  Claim C5, amended. After every run that reaches the navigation, the invocation has made
  exactly two KV writes, under the same key; the two records agree on \<open>id\<close>,
  \<open>resumePath\<close>, \<open>imagePath\<close>, \<open>companyName\<close>, \<open>jobTitle\<close> and
  \<open>jobDescription\<close>, the second being the first with \<open>feedback\<close> replaced;
  \<open>feedback\<close> is null in the first, and in the second it is whatever value
  \<open>JSON.parse\<close> returned for the critique text of the Feedback Generator's answer.
  Nothing in the handler requires that value to be non-null.
\<close>

theorem monotonic_record:
  assumes "list_ex is_Navigate (events env cn jt jd f st)"
  shows "\<exists>k d d' r r' fb t.
           filter is_KvSet (events env cn jt jd f st) =
             [KvSet k (JSON_stringify d) r, KvSet k (JSON_stringify d') r'] \<and>
           id' d' = id' d \<and> resumePath d' = resumePath d \<and> imagePath d' = imagePath d \<and>
           companyName d' = companyName d \<and> jobTitle d' = jobTitle d \<and>
           jobDescription d' = jobDescription d \<and>
           d' = d\<lparr>feedback := feedback d'\<rparr> \<and>
           feedback d = JNull \<and>
           AiFeedback (resumePath d) (prepareInstructions env jt jd) (Inr (Some fb))
             \<in> set (events env cn jt jd f st) \<and>
           feedbackText_of fb = Inr t \<and> JSON_parse env t = Inr (feedback d')"
proof (cases rule: handleAnalyze_paths [of env cn jt jd f st])
  case (completed uf c img ui u b fb t v b')
  then show ?thesis
    by (intro exI [of _ "js ''resume:'' @ u"]
          exI [of _ "\<lparr>id' = u, resumePath = path uf, imagePath = path ui, companyName = cn,
                      jobTitle = jt, jobDescription = jd, feedback = JNull\<rparr>"]
          exI [of _ "\<lparr>id' = u, resumePath = path uf, imagePath = path ui, companyName = cn,
                      jobTitle = jt, jobDescription = jd, feedback = v\<rparr>"]
          exI [of _ "Inr b"] exI [of _ "Inr b'"] exI [of _ fb] exI [of _ t]) simp
qed (use assms in simp_all)

text \<open>The scripted run in which every service succeeds reaches the navigation.\<close>

theorem monotonic_record_witness:
  "list_ex is_Navigate (run_events all_succeed) \<and>
   (\<exists>k d d' r r' fb t.
           filter is_KvSet (run_events all_succeed) =
             [KvSet k (JSON_stringify d) r, KvSet k (JSON_stringify d') r'] \<and>
           id' d' = id' d \<and> resumePath d' = resumePath d \<and> imagePath d' = imagePath d \<and>
           companyName d' = companyName d \<and> jobTitle d' = jobTitle d \<and>
           jobDescription d' = jobDescription d \<and>
           d' = d\<lparr>feedback := feedback d'\<rparr> \<and>
           feedback d = JNull \<and>
           AiFeedback (resumePath d)
               (prepareInstructions (scripted all_succeed) (js ''Engineer'') (js ''Build things''))
               (Inr (Some fb))
             \<in> set (run_events all_succeed) \<and>
           feedbackText_of fb = Inr t \<and> JSON_parse (scripted all_succeed) t = Inr (feedback d'))"
proof -
  have h: "list_ex is_Navigate (run_events all_succeed)"
    by (simp add: run_defs)
  show ?thesis by (rule conjI [OF h monotonic_record [OF h]])
qed

subsection \<open>The order of the steps\<close>

text \<open>
  Claim C6 says that rasterization occurs before the upload of the original file. In the
  scripted run in which every service succeeds, the upload of the original file is
  followed by the rasterization, and the rasterization is not followed by an upload of
  the original file.
\<close>

theorem step_order_counterexample:
  "occurs_before (is_FsUpload_of resume_pdf) is_ConvertPdfToImage (run_events all_succeed) \<and>
   \<not> occurs_before is_ConvertPdfToImage (is_FsUpload_of resume_pdf) (run_events all_succeed)"
  by (simp add: run_defs occurs_before_def)

text \<open>
  Claim C6, amended. In every invocation the calls to the external services are an
  initial segment of this sequence: upload of the original file, rasterization of the
  original file, upload of an image, KV write, feedback request, KV write under the same
  key.
\<close>

theorem step_order:
  "\<exists>r1 r2 image r3 k d r4 p i r5 d' r6.
     prefix (service_calls (events env cn jt jd f st))
       [FsUpload [f] r1, ConvertPdfToImage f r2, FsUpload [image] r3,
        KvSet k (JSON_stringify d) r4, AiFeedback p i r5, KvSet k (JSON_stringify d') r6]"
  by (cases rule: handleAnalyze_paths [of env cn jt jd f st]) (simp_all add: service_calls_def)

text \<open>The scripted run in which every service succeeds makes all six calls.\<close>

theorem step_order_witness:
  "service_calls (run_events all_succeed) =
     [FsUpload [resume_pdf] (Inr (Some \<lparr>path = js ''/u/cv.pdf''\<rparr>)),
      ConvertPdfToImage resume_pdf (Inr \<lparr>image_file = Some resume_png\<rparr>),
      FsUpload [resume_png] (Inr (Some \<lparr>path = js ''/u/cv.png''\<rparr>)),
      KvSet (js ''resume:42'') (JSON_stringify (stored JNull)) (Inr True),
      AiFeedback (js ''/u/cv.pdf'') (js ''Engineer; Build things'') (Inr (Some critique_string)),
      KvSet (js ''resume:42'') (JSON_stringify (stored (JObject [(js ''score'', JNumber 80)])))
        (Inr True)] \<and>
   (\<exists>r1 r2 image r3 k d r4 p i r5 d' r6.
     prefix (service_calls (run_events all_succeed))
       [FsUpload [resume_pdf] r1, ConvertPdfToImage resume_pdf r2, FsUpload [image] r3,
        KvSet k (JSON_stringify d) r4, AiFeedback p i r5, KvSet k (JSON_stringify d') r6])"
proof -
  have h: "service_calls (run_events all_succeed) =
     [FsUpload [resume_pdf] (Inr (Some \<lparr>path = js ''/u/cv.pdf''\<rparr>)),
      ConvertPdfToImage resume_pdf (Inr \<lparr>image_file = Some resume_png\<rparr>),
      FsUpload [resume_png] (Inr (Some \<lparr>path = js ''/u/cv.png''\<rparr>)),
      KvSet (js ''resume:42'') (JSON_stringify (stored JNull)) (Inr True),
      AiFeedback (js ''/u/cv.pdf'') (js ''Engineer; Build things'') (Inr (Some critique_string)),
      KvSet (js ''resume:42'') (JSON_stringify (stored (JObject [(js ''score'', JNumber 80)])))
        (Inr True)]"
    by (simp add: run_defs service_calls_def)
  show ?thesis by (rule conjI [OF h step_order])
qed

subsection \<open>Failure of the provisional write\<close>

text \<open>
  Claim C7 says that a provisional write that reports failure is propagated as a reported
  error. In the scripted run in which \<open>kv.set\<close> returns \<open>false\<close> for the provisional
  write, no error is reported anywhere: the feedback request is made, the run navigates,
  and the status ends as \<open>Analysis complete, redirecting...\<close>.
\<close>

theorem provisional_write_counterexample:
  "KvSet (js ''resume:42'') (JSON_stringify (stored JNull)) (Inr False)
     \<in> set (run_events write_reports_failure) \<and>
   \<not> list_ex is_error_report (run_events write_reports_failure) \<and>
   list_ex is_AiFeedback (run_events write_reports_failure) \<and>
   list_ex is_Navigate (run_events write_reports_failure) \<and>
   statusText (run write_reports_failure) = ''Analysis complete, redirecting...''"
  by (simp add: run_defs write_reports_failure_def)

text \<open>
  Claim C7, amended. Let the first KV write of an invocation have the outcome \<open>r\<close>.
  If the call threw \<open>e\<close>, it is the only KV write, no feedback request is made, the
  invocation ends with \<open>console.error\<close> of \<open>e\<close>, the status
  \<open>Error: Something went wrong during analysis\<close> and the reset of the processing
  flag, and \<open>handleAnalyze\<close> returns. If the call returned, whatever indicator it
  returned, the next two events are the status \<open>Analyzing...\<close> and the feedback
  request: the indicator is not inspected.
\<close>

theorem provisional_write:
  assumes "filter is_KvSet (events env cn jt jd f st) = KvSet k d r # rest"
  shows "case r of
           Inl e \<Rightarrow>
             rest = [] \<and> \<not> list_ex is_AiFeedback (events env cn jt jd f st) \<and>
             suffix [KvSet k d (Inl e), ConsoleError e,
                     SetStatusText ''Error: Something went wrong during analysis'',
                     SetIsProcessing False] (events env cn jt jd f st) \<and>
             statusText (handleAnalyze env cn jt jd f st)
               = ''Error: Something went wrong during analysis'' \<and>
             \<not> isProcessing (handleAnalyze env cn jt jd f st)
         | Inr b \<Rightarrow>
             (\<exists>p i r'. take 3 (dropWhile (\<lambda>e. \<not> is_KvSet e) (events env cn jt jd f st)) =
                [KvSet k d (Inr b), SetStatusText ''Analyzing...'', AiFeedback p i r'])"
  using assms
  by (cases rule: handleAnalyze_paths [of env cn jt jd f st])
     (auto simp: suffix_Cons split: sum.splits)

text \<open>
  The scripted runs in which the provisional write throws, and in which it returns
  \<open>false\<close>.
\<close>

theorem provisional_write_witness:
  "filter is_KvSet (run_events write_throws) =
     KvSet (js ''resume:42'') (JSON_stringify (stored JNull)) (Inl (Thrown (js ''quota exceeded'')))
       # [] \<and>
   \<not> list_ex is_AiFeedback (run_events write_throws) \<and>
   statusText (run write_throws) = ''Error: Something went wrong during analysis'' \<and>
   \<not> isProcessing (run write_throws) \<and>
   filter is_KvSet (run_events write_reports_failure) =
     KvSet (js ''resume:42'') (JSON_stringify (stored JNull)) (Inr False)
       # [KvSet (js ''resume:42'')
            (JSON_stringify (stored (JObject [(js ''score'', JNumber 80)]))) (Inr True)] \<and>
   (\<exists>p i r'. take 3 (dropWhile (\<lambda>e. \<not> is_KvSet e) (run_events write_reports_failure)) =
      [KvSet (js ''resume:42'') (JSON_stringify (stored JNull)) (Inr False),
       SetStatusText ''Analyzing...'', AiFeedback p i r'])"
proof -
  have h1: "filter is_KvSet (run_events write_throws) =
     KvSet (js ''resume:42'') (JSON_stringify (stored JNull)) (Inl (Thrown (js ''quota exceeded'')))
       # []"
    by (simp add: run_defs write_throws_def)
  have h2: "filter is_KvSet (run_events write_reports_failure) =
     KvSet (js ''resume:42'') (JSON_stringify (stored JNull)) (Inr False)
       # [KvSet (js ''resume:42'')
            (JSON_stringify (stored (JObject [(js ''score'', JNumber 80)]))) (Inr True)]"
    by (simp add: run_defs write_reports_failure_def)
  from provisional_write [OF h1] provisional_write [OF h2] h1 h2
  show ?thesis by simp
qed

subsection \<open>A critique that is not JSON\<close>

text \<open>
  Claim C8. When the Feedback Generator answered, the critique text was extracted, and
  \<open>JSON.parse\<close> threw \<open>e\<close> on it, then right after the feedback request the
  \<open>catch\<close> block runs: \<open>console.error\<close> of \<open>e\<close>, the status
  \<open>Error: Something went wrong during analysis\<close>, and the reset of the processing
  flag, after which \<open>handleAnalyze\<close> returns. The invocation has made one KV write
  only, the provisional one, and does not navigate.
\<close>

theorem malformed_critique:
  assumes "AiFeedback p i (Inr (Some fb)) \<in> set (events env cn jt jd f st)"
    and "feedbackText_of fb = Inr t"
    and "JSON_parse env t = Inl e"
  shows "suffix [AiFeedback p i (Inr (Some fb)), ConsoleError e,
                 SetStatusText ''Error: Something went wrong during analysis'',
                 SetIsProcessing False] (events env cn jt jd f st) \<and>
         statusText (handleAnalyze env cn jt jd f st)
           = ''Error: Something went wrong during analysis'' \<and>
         \<not> isProcessing (handleAnalyze env cn jt jd f st) \<and>
         length (filter is_KvSet (events env cn jt jd f st)) = 1 \<and>
         \<not> list_ex is_Navigate (events env cn jt jd f st)"
  using assms
  by (cases rule: handleAnalyze_paths [of env cn jt jd f st]) (auto simp: suffix_Cons)

text \<open>The scripted run whose critique text is \<open>Sure! {\<close>.\<close>

theorem malformed_critique_witness:
  "AiFeedback (js ''/u/cv.pdf'') (js ''Engineer; Build things'')
      (Inr (Some \<lparr>message = \<lparr>content = Str (js ''Sure! {'')\<rparr>\<rparr>))
     \<in> set (run_events critique_malformed) \<and>
   feedbackText_of \<lparr>message = \<lparr>content = Str (js ''Sure! {'')\<rparr>\<rparr> = Inr (js ''Sure! {'') \<and>
   JSON_parse (scripted critique_malformed) (js ''Sure! {'') = Inl SyntaxError \<and>
   suffix [AiFeedback (js ''/u/cv.pdf'') (js ''Engineer; Build things'')
             (Inr (Some \<lparr>message = \<lparr>content = Str (js ''Sure! {'')\<rparr>\<rparr>)),
           ConsoleError SyntaxError,
           SetStatusText ''Error: Something went wrong during analysis'',
           SetIsProcessing False] (run_events critique_malformed) \<and>
   statusText (run critique_malformed) = ''Error: Something went wrong during analysis'' \<and>
   \<not> isProcessing (run critique_malformed) \<and>
   length (filter is_KvSet (run_events critique_malformed)) = 1 \<and>
   \<not> list_ex is_Navigate (run_events critique_malformed)"
proof -
  have h1: "AiFeedback (js ''/u/cv.pdf'') (js ''Engineer; Build things'')
      (Inr (Some \<lparr>message = \<lparr>content = Str (js ''Sure! {'')\<rparr>\<rparr>))
     \<in> set (run_events critique_malformed)"
    by (simp add: run_defs critique_malformed_def)
  have h2: "feedbackText_of \<lparr>message = \<lparr>content = Str (js ''Sure! {'')\<rparr>\<rparr> = Inr (js ''Sure! {'')"
    by (simp add: feedbackText_of_def)
  have h3: "JSON_parse (scripted critique_malformed) (js ''Sure! {'') = Inl SyntaxError"
    by (simp add: scripted_def critique_malformed_def all_succeed_def parse_example_def js_def)
  show ?thesis
    by (rule conjI [OF h1 conjI [OF h2 conjI [OF h3 malformed_critique [OF h1 h2 h3]]]])
qed

subsection \<open>The record invariant\<close>

text \<open>
  Claim C9. Every KV write of an invocation whose record has a non-null \<open>feedback\<close>
  comes after a successful upload of the original file, a rasterization that produced an
  image, and a successful upload of that image, and the record's \<open>resumePath\<close> and
  \<open>imagePath\<close> are the paths those two uploads returned.
\<close>

theorem record_invariant:
  assumes "KvSet k (JSON_stringify d) r \<in> set (events env cn jt jd f st)"
    and "feedback d \<noteq> JNull"
  shows "\<exists>uploadedFile imageFile image uploadedImage.
      FsUpload [f] (Inr (Some uploadedFile)) \<in> set (events env cn jt jd f st) \<and>
      ConvertPdfToImage f (Inr imageFile) \<in> set (events env cn jt jd f st) \<and>
      image_file imageFile = Some image \<and>
      FsUpload [image] (Inr (Some uploadedImage)) \<in> set (events env cn jt jd f st) \<and>
      resumePath d = path uploadedFile \<and> imagePath d = path uploadedImage"
proof (cases rule: handleAnalyze_paths [of env cn jt jd f st])
  case (finalize_threw uf c img ui u b fb t v e)
  with assms show ?thesis
    by (intro exI [of _ uf] exI [of _ c] exI [of _ img] exI [of _ ui]) auto
next
  case (completed uf c img ui u b fb t v b')
  with assms show ?thesis
    by (intro exI [of _ uf] exI [of _ c] exI [of _ img] exI [of _ ui]) auto
qed (use assms in auto)

text \<open>The final write of the scripted run in which every service succeeds.\<close>

theorem record_invariant_witness:
  "KvSet (js ''resume:42'') (JSON_stringify (stored (JObject [(js ''score'', JNumber 80)])))
      (Inr True) \<in> set (run_events all_succeed) \<and>
   feedback (stored (JObject [(js ''score'', JNumber 80)])) \<noteq> JNull \<and>
   (\<exists>uploadedFile imageFile image uploadedImage.
      FsUpload [resume_pdf] (Inr (Some uploadedFile)) \<in> set (run_events all_succeed) \<and>
      ConvertPdfToImage resume_pdf (Inr imageFile) \<in> set (run_events all_succeed) \<and>
      image_file imageFile = Some image \<and>
      FsUpload [image] (Inr (Some uploadedImage)) \<in> set (run_events all_succeed) \<and>
      resumePath (stored (JObject [(js ''score'', JNumber 80)])) = path uploadedFile \<and>
      imagePath (stored (JObject [(js ''score'', JNumber 80)])) = path uploadedImage)"
proof -
  have h1: "KvSet (js ''resume:42'')
      (JSON_stringify (stored (JObject [(js ''score'', JNumber 80)]))) (Inr True)
      \<in> set (run_events all_succeed)"
    by (simp add: run_defs)
  have h2: "feedback (stored (JObject [(js ''score'', JNumber 80)])) \<noteq> JNull"
    by (simp add: stored_def)
  show ?thesis by (rule conjI [OF h1 conjI [OF h2 record_invariant [OF h1 h2]]])
qed

subsection \<open>The processing flag\<close>

text \<open>
  Claim C10. An invocation that navigates leaves \<open>isProcessing\<close> true and never sets
  it to false, so the form stays hidden. Every other invocation ends by setting the
  status to one of the five error messages and then \<open>isProcessing\<close> to false; the
  status keeps that message, the form is rendered again, and the submit button is
  enabled as long as a file is selected.
\<close>

theorem processing_flag:
  "if list_ex is_Navigate (events env cn jt jd f st)
   then isProcessing (handleAnalyze env cn jt jd f st) \<and>
        SetIsProcessing False \<notin> set (events env cn jt jd f st) \<and>
        \<not> form_rendered (handleAnalyze env cn jt jd f st) \<and>
        submit_disabled (handleAnalyze env cn jt jd f st)
   else \<not> isProcessing (handleAnalyze env cn jt jd f st) \<and>
        statusText (handleAnalyze env cn jt jd f st) \<in>
          {''Error: Failed to upload file'', ''Error: Failed to convert PDF to image'',
           ''Error: Failed to upload image'', ''Error: Failed to analyze resume'',
           ''Error: Something went wrong during analysis''} \<and>
        suffix [SetStatusText (statusText (handleAnalyze env cn jt jd f st)),
                SetIsProcessing False] (events env cn jt jd f st) \<and>
        form_rendered (handleAnalyze env cn jt jd f st) \<and>
        submit_disabled (handleAnalyze env cn jt jd f st) = (file st = None)"
  by (cases rule: handleAnalyze_paths [of env cn jt jd f st])
     (simp_all add: suffix_Cons form_rendered_def submit_disabled_def)

text \<open>A run that navigates, and a run in which the Feedback Generator returns nothing.\<close>

theorem processing_flag_witness:
  "list_ex is_Navigate (run_events all_succeed) \<and>
   isProcessing (run all_succeed) \<and>
   SetIsProcessing False \<notin> set (run_events all_succeed) \<and>
   \<not> list_ex is_Navigate (run_events feedback_fails) \<and>
   \<not> isProcessing (run feedback_fails) \<and>
   statusText (run feedback_fails) = ''Error: Failed to analyze resume'' \<and>
   \<not> submit_disabled (run feedback_fails)"
proof -
  have h1: "list_ex is_Navigate (run_events all_succeed)"
    by (simp add: run_defs)
  have h2: "\<not> list_ex is_Navigate (run_events feedback_fails)"
    by (simp add: run_defs feedback_fails_def)
  have h3: "statusText (run feedback_fails) = ''Error: Failed to analyze resume''"
    by (simp add: run_defs feedback_fails_def)
  have h4: "file (initial (Some resume_pdf)) \<noteq> None"
    by (simp add: initial_def)
  from processing_flag [of "scripted all_succeed" "js ''Acme''" "js ''Engineer''"
      "js ''Build things''" resume_pdf "initial (Some resume_pdf)"]
    processing_flag [of "scripted feedback_fails" "js ''Acme''" "js ''Engineer''"
      "js ''Build things''" resume_pdf "initial (Some resume_pdf)"] h1 h2 h3 h4
  show ?thesis by simp
qed

end
